theory Spec2Isabelle
  imports Main "HOL-Library.Sublist"
begin

section \<open>The report collector script\<close>

text \<open>
  The repository is one Python script, \<^verbatim>\<open>aa.py\<close>. It prints a start banner, opens
  \<^verbatim>\<open>stripe_migration_report.txt\<close> under the project root for writing, writes a title,
  and for each entry of a literal list of relative paths writes one section: the file's
  text when the joined path exists and can be read, an error line when it exists and the
  read raises, a not-found line when it does not exist. It prints one progress line per
  entry and two closing lines.

  Python strings are modelled as \<^typ>\<open>string\<close>, standing for their UTF-8 bytes: the script
  only concatenates strings, and UTF-8 encoding distributes over concatenation. The text
  of a file is the text Python's text layer hands to the program and takes from it; the
  platform's newline translation between that text and the bytes on disk lies below it.
\<close>

subsection \<open>The operating system as the script sees it\<close>

type_synonym path = string

text \<open>
  What lies at a path that \<^verbatim>\<open>os.path.exists\<close> reports: something whose whole text
  \<^verbatim>\<open>open(p, "r", encoding="utf-8").read()\<close> returns, or something on which opening or
  reading raises an \<^verbatim>\<open>Exception\<close> \<^verbatim>\<open>e\<close>. For the latter the node records the text
  that had been decoded before the failure and the description \<^verbatim>\<open>str(e)\<close>.
\<close>

datatype node =
    Readable string
  | Unreadable string string

text \<open>
  \<open>path_join\<close> is the platform's \<^verbatim>\<open>os.path.join\<close>; \<open>nodes\<close> maps the paths that exist
  to what is there; \<open>write_error p\<close> is \<open>None\<close> when \<^verbatim>\<open>open(p, "w", encoding="utf-8")\<close>
  succeeds and the description of the exception it raises otherwise.
\<close>

record os_state =
  path_join :: "path \<Rightarrow> path \<Rightarrow> path"
  nodes :: "path \<rightharpoonup> node"
  write_error :: "path \<Rightarrow> string option"

definition path_exists :: "os_state \<Rightarrow> path \<Rightarrow> bool" where
  "path_exists os p = (case nodes os p of None \<Rightarrow> False | Some n \<Rightarrow> True)"

text \<open>
  Opening a path for reading and reading all of it: \<open>Inr\<close> the text, or \<open>Inl\<close> the
  description of the exception. The text decoded before a failure is dropped with the
  exception. (The loop never reads a path that does not exist; what Python raises
  there is a \<^verbatim>\<open>FileNotFoundError\<close>.)
\<close>

definition read_text :: "os_state \<Rightarrow> path \<Rightarrow> string + string" where
  "read_text os p =
     (case nodes os p of
        None \<Rightarrow> Inl ''[Errno 2] No such file or directory''
      | Some (Readable content) \<Rightarrow> Inr content
      | Some (Unreadable partial e) \<Rightarrow> Inl e)"

text \<open>\<^verbatim>\<open>posixpath.join\<close> on two components, for concrete scenarios.\<close>

definition posix_join :: "path \<Rightarrow> path \<Rightarrow> path" where
  "posix_join a b =
     (if b \<noteq> [] \<and> hd b = CHR ''/'' then b
      else if a = [] \<or> last a = CHR ''/'' then a @ b
      else a @ ''/'' @ b)"

subsection \<open>Configuration\<close>

record config =
  project_root :: path
  files_to_collect :: "path list"

definition output_file :: "os_state \<Rightarrow> config \<Rightarrow> path" where
  "output_file os cfg = path_join os (project_root cfg) ''stripe_migration_report.txt''"

text \<open>The literals of the script.\<close>

definition source_config :: config where
  "source_config =
     \<lparr> project_root = ''C:'' @ [CHR 0x5C] @ ''Users'' @ [CHR 0x5C] @ ''hanos''
                        @ [CHR 0x5C] @ ''cb'' @ [CHR 0x5C] @ ''backend'',
       files_to_collect =
         [ ''.env'',
           ''package.json'',
           ''server.js'',
           ''controllers/auth.js'',
           ''controllers/cards.js'',
           ''controllers/payments.js'',
           ''controllers/subscriptions.js'',
           ''controllers/users.js'',
           ''lib/prismaClient.js'',
           ''middleware/requireAuth.js'',
           ''prisma/schema.prisma'' ] \<rparr>"

subsection \<open>The state of a run\<close>

text \<open>
  \<open>outfile\<close> is the text written to the report's handle so far, \<open>console\<close> the arguments
  of the \<^verbatim>\<open>print\<close> calls so far (each is followed by a newline on the terminal), and
  \<open>reads\<close> the paths that have been opened for reading, in order.
\<close>

record run_state =
  outfile :: string
  console :: "string list"
  reads :: "path list"

definition start_state :: run_state where
  "start_state = \<lparr> outfile = [], console = [], reads = [] \<rparr>"

definition outfile_write :: "string \<Rightarrow> run_state \<Rightarrow> run_state" where
  "outfile_write s st = st\<lparr> outfile := outfile st @ s \<rparr>"

definition print :: "string \<Rightarrow> run_state \<Rightarrow> run_state" where
  "print s st = st\<lparr> console := console st @ [s] \<rparr>"

definition open_and_read :: "os_state \<Rightarrow> path \<Rightarrow> run_state \<Rightarrow> (string + string) \<times> run_state" where
  "open_and_read os p st = (read_text os p, st\<lparr> reads := reads st @ [p] \<rparr>)"

subsection \<open>The loop body and the loop\<close>

text \<open>
  \<^verbatim>\<open>
  full_path = os.path.join(project_root, relative_path)
  if os.path.exists(full_path):
      outfile.write(f"\n--- {relative_path} ---\n\n")
      try:
          with open(full_path, "r", encoding="utf-8") as infile:
              content = infile.read()
              outfile.write(content)
      except Exception as e:
          outfile.write(f"[ERROR READING FILE]: {e}\n")
      outfile.write("\n")
      print(f"(check mark) Added: {relative_path}")
  else:
      outfile.write(f"\n--- {relative_path} ---\n")
      outfile.write("[FILE NOT FOUND]\n\n")
      print(f"(warning sign) Skipped (not found): {relative_path}")
  \<close>
  The two console symbols are U+2705 and U+26A0 U+FE0F, written here as their UTF-8 bytes.
\<close>

definition added_notice :: "path \<Rightarrow> string" where
  "added_notice relative_path =
     [CHR 0xE2, CHR 0x9C, CHR 0x85] @ '' Added: '' @ relative_path"

definition skipped_notice :: "path \<Rightarrow> string" where
  "skipped_notice relative_path =
     [CHR 0xE2, CHR 0x9A, CHR 0xA0, CHR 0xEF, CHR 0xB8, CHR 0x8F]
       @ '' Skipped (not found): '' @ relative_path"

definition collect_one :: "os_state \<Rightarrow> path \<Rightarrow> path \<Rightarrow> run_state \<Rightarrow> run_state" where
  "collect_one os root relative_path st =
     (let full_path = path_join os root relative_path in
      if path_exists os full_path then
        (let st1 = outfile_write (''\<newline>--- '' @ relative_path @ '' ---\<newline>\<newline>'') st;
             (r, st2) = open_and_read os full_path st1;
             st3 = (case r of
                      Inr content \<Rightarrow> outfile_write content st2
                    | Inl e \<Rightarrow> outfile_write (''[ERROR READING FILE]: '' @ e @ ''\<newline>'') st2);
             st4 = outfile_write ''\<newline>'' st3
         in print (added_notice relative_path) st4)
      else
        (let st1 = outfile_write (''\<newline>--- '' @ relative_path @ '' ---\<newline>'') st;
             st2 = outfile_write ''[FILE NOT FOUND]\<newline>\<newline>'' st1
         in print (skipped_notice relative_path) st2))"

primrec collect_loop :: "os_state \<Rightarrow> path \<Rightarrow> path list \<Rightarrow> run_state \<Rightarrow> run_state" where
  "collect_loop os root [] st = st"
| "collect_loop os root (relative_path # rest) st =
     collect_loop os root rest (collect_one os root relative_path st)"

subsection \<open>The whole script\<close>

datatype error = OSError string

record result =
  status :: "error + unit"
  os_after :: os_state
  run :: run_state

definition start_banner :: string where
  "start_banner = [CHR 0xF0, CHR 0x9F, CHR 0x94, CHR 0x8D] @ '' Starting file collection...''"

definition complete_banner :: string where
  "complete_banner =
     ''\<newline>'' @ [CHR 0xF0, CHR 0x9F, CHR 0x8E, CHR 0x89] @ '' File collection complete!''"

definition title :: string where
  "title = ''=== Stripe Migration Report ===\<newline>\<newline>''"

text \<open>
  Opening the report for writing creates or truncates it. The handle is buffered; the
  model takes the written text to reach the file when the \<^verbatim>\<open>with\<close> block closes the
  handle, so a listed path that is the report itself reads as an empty file during the
  pass. An exception from opening the report is not handled anywhere: the script ends
  there. \<open>collect\<close> is the script when every write to the open handle, every \<^verbatim>\<open>print\<close>
  and the closing of the handle succeed; \<open>collect_io\<close> below is the script when they
  may raise.
\<close>

definition open_for_writing :: "os_state \<Rightarrow> path \<Rightarrow> error + os_state" where
  "open_for_writing os p =
     (case write_error os p of
        Some e \<Rightarrow> Inl (OSError e)
      | None \<Rightarrow> Inr (os\<lparr> nodes := (nodes os)(p \<mapsto> Readable []) \<rparr>))"

definition close_written :: "os_state \<Rightarrow> path \<Rightarrow> string \<Rightarrow> os_state" where
  "close_written os p text = os\<lparr> nodes := (nodes os)(p \<mapsto> Readable text) \<rparr>"

definition collect :: "config \<Rightarrow> os_state \<Rightarrow> result" where
  "collect cfg os =
     (let st0 = print start_banner start_state;
          out = output_file os cfg
      in case open_for_writing os out of
           Inl err \<Rightarrow> \<lparr> status = Inl err, os_after = os, run = st0 \<rparr>
         | Inr os1 \<Rightarrow>
             (let st1 = outfile_write title st0;
                  st2 = collect_loop os1 (project_root cfg) (files_to_collect cfg) st1;
                  os2 = close_written os1 out (outfile st2);
                  st3 = print complete_banner st2;
                  st4 = print (''   All contents saved to: '' @ out) st3
              in \<lparr> status = Inr (), os_after = os2, run = st4 \<rparr>))"

text \<open>The report: the text of the output file after a run that was not aborted.\<close>

definition report :: "config \<Rightarrow> os_state \<Rightarrow> string option" where
  "report cfg os =
     (case status (collect cfg os) of
        Inl err \<Rightarrow> None
      | Inr u \<Rightarrow>
          (case nodes (os_after (collect cfg os)) (output_file os cfg) of
             Some (Readable text) \<Rightarrow> Some text
           | _ \<Rightarrow> None))"

subsection \<open>Sections\<close>

text \<open>
  The section of a relative path is the text one pass of the loop body writes to a
  fresh handle. \<open>opened\<close> is the file system as the loop sees it, the report just
  created or truncated; \<open>sections\<close> lists the sections of a configuration in the order
  of its list.
\<close>

definition section_text :: "os_state \<Rightarrow> path \<Rightarrow> path \<Rightarrow> string" where
  "section_text os root relative_path = outfile (collect_one os root relative_path start_state)"

definition opened :: "os_state \<Rightarrow> config \<Rightarrow> os_state" where
  "opened os cfg = os\<lparr> nodes := (nodes os)(output_file os cfg \<mapsto> Readable []) \<rparr>"

definition sections :: "config \<Rightarrow> os_state \<Rightarrow> string list" where
  "sections cfg os =
     map (section_text (opened os cfg) (project_root cfg)) (files_to_collect cfg)"

subsection \<open>Output that can fail\<close>












subsection \<open>Concrete scenarios\<close>

definition example_os :: os_state where
  "example_os =
     \<lparr> path_join = posix_join,
       nodes = [''/proj/a.txt'' \<mapsto> Readable ''hello''],
       write_error = (\<lambda>p. None) \<rparr>"

definition example_config :: config where
  "example_config =
     \<lparr> project_root = ''/proj'', files_to_collect = [''a.txt'', ''missing.txt''] \<rparr>"

text \<open>
  A file system with a readable file, a directory, a file that is not valid UTF-8 after
  three characters, and a file too large to read: \<^verbatim>\<open>read()\<close> raises \<^verbatim>\<open>MemoryError\<close> on it,
  whose \<^verbatim>\<open>str\<close> is the empty string.
\<close>

definition faulty_os :: os_state where
  "faulty_os =
     \<lparr> path_join = posix_join,
       nodes = [''/proj/a.txt'' \<mapsto> Readable ''hello'',
                ''/proj/dir'' \<mapsto> Unreadable [] ''[Errno 21] Is a directory'',
                ''/proj/bad.bin'' \<mapsto> Unreadable ''abc'' ''invalid start byte'',
                ''/proj/huge.log'' \<mapsto> Unreadable [] []],
       write_error = (\<lambda>p. None) \<rparr>"

definition faulty_config :: config where
  "faulty_config = \<lparr> project_root = ''/proj'', files_to_collect = [''dir'', ''nope''] \<rparr>"


text \<open>The first file system with a file beside the listed ones and an old report.\<close>

definition crowded_os :: os_state where
  "crowded_os =
     \<lparr> path_join = posix_join,
       nodes = [''/proj/a.txt'' \<mapsto> Readable ''hello'',
                ''/proj/notes.md'' \<mapsto> Readable ''unlisted'',
                ''/proj/stripe_migration_report.txt'' \<mapsto> Readable ''old report''],
       write_error = (\<lambda>p. None) \<rparr>"

text \<open>
  An empty file system for the script's own literals. \<open>windows_join\<close> is what
  \<^verbatim>\<open>ntpath.join\<close> returns for a first component that does not end in a separator and a
  second one with neither a drive nor a leading separator, as all of the script's are.
\<close>

definition windows_join :: "path \<Rightarrow> path \<Rightarrow> path" where
  "windows_join a b = a @ [CHR 0x5C] @ b"

definition bare_os :: os_state where
  "bare_os = \<lparr> path_join = windows_join, nodes = Map.empty, write_error = (\<lambda>p. None) \<rparr>"




section \<open>Properties\<close>

subsection \<open>What one pass of the loop body does, and what the loop does\<close>

lemmas step_defs = collect_one_def outfile_write_def print_def open_and_read_def
  start_state_def Let_def

lemma section_text_obs:
  "section_text os root p =
     (if path_exists os (path_join os root p)
      then ''\<newline>--- '' @ p @ '' ---\<newline>\<newline>''
             @ (case read_text os (path_join os root p) of
                  Inr content \<Rightarrow> content
                | Inl e \<Rightarrow> ''[ERROR READING FILE]: '' @ e @ ''\<newline>'')
             @ ''\<newline>''
      else ''\<newline>--- '' @ p @ '' ---\<newline>'' @ ''[FILE NOT FOUND]\<newline>\<newline>'')"
  by (simp add: section_text_def step_defs split: sum.splits)

lemma collect_one_outfile:
  "outfile (collect_one os root p st) = outfile st @ section_text os root p"
  by (simp add: section_text_def step_defs split: sum.splits)

lemma collect_one_console:
  "console (collect_one os root p st) =
     console st @ [if path_exists os (path_join os root p)
                   then added_notice p else skipped_notice p]"
  by (simp add: step_defs split: sum.splits)

lemma collect_one_reads:
  "reads (collect_one os root p st) =
     reads st @ (if path_exists os (path_join os root p) then [path_join os root p] else [])"
  by (simp add: step_defs split: sum.splits)

lemma collect_loop_outfile:
  "outfile (collect_loop os root ps st) = outfile st @ concat (map (section_text os root) ps)"
  by (induction ps arbitrary: st) (simp_all add: collect_one_outfile)

lemma collect_loop_console:
  "console (collect_loop os root ps st) =
     console st @ map (\<lambda>p. if path_exists os (path_join os root p)
                            then added_notice p else skipped_notice p) ps"
  by (induction ps arbitrary: st) (simp_all add: collect_one_console)

lemma collect_loop_reads:
  "reads (collect_loop os root ps st) =
     reads st @ filter (path_exists os) (map (path_join os root) ps)"
  by (induction ps arbitrary: st) (simp_all add: collect_one_reads)

subsection \<open>The two ways the script ends\<close>

lemma output_file_opened [simp]: "output_file (opened os cfg) cfg' = output_file os cfg'"
  by (simp add: output_file_def opened_def)

lemma collect_failed:
  "write_error os (output_file os cfg) = Some e \<Longrightarrow>
   collect cfg os =
     \<lparr> status = Inl (OSError e), os_after = os,
       run = \<lparr> outfile = [], console = [start_banner], reads = [] \<rparr> \<rparr>"
  by (simp add: collect_def open_for_writing_def print_def start_state_def)

lemma collect_opened:
  "write_error os (output_file os cfg) = None \<Longrightarrow>
   collect cfg os =
     (let st2 = collect_loop (opened os cfg) (project_root cfg) (files_to_collect cfg)
                  \<lparr> outfile = title, console = [start_banner], reads = [] \<rparr>
      in \<lparr> status = Inr (),
           os_after = close_written (opened os cfg) (output_file os cfg) (outfile st2),
           run = st2\<lparr> console := console st2 @
                   [complete_banner, ''   All contents saved to: '' @ output_file os cfg] \<rparr> \<rparr>)"
  by (simp add: collect_def open_for_writing_def opened_def print_def outfile_write_def
                start_state_def Let_def)

lemma status_collect:
  "status (collect cfg os) =
     (case write_error os (output_file os cfg) of
        Some e \<Rightarrow> Inl (OSError e)
      | None \<Rightarrow> Inr ())"
  by (cases "write_error os (output_file os cfg)")
     (simp_all add: collect_failed collect_opened Let_def)

lemma report_opened:
  "write_error os (output_file os cfg) = None \<Longrightarrow>
   report cfg os = Some (title @ concat (sections cfg os))"
  by (simp add: report_def collect_opened Let_def close_written_def collect_loop_outfile
                sections_def)

lemma report_failed:
  "write_error os (output_file os cfg) = Some e \<Longrightarrow> report cfg os = None"
  by (simp add: report_def collect_failed)

section \<open>The claims\<close>

text \<open>
  C2. With a root that holds exactly \<^verbatim>\<open>a.txt\<close> with the text \<^verbatim>\<open>hello\<close> and the list
  \<^verbatim>\<open>["a.txt", "missing.txt"]\<close>, the report is the title line, a blank line, a blank
  line before the header of \<^verbatim>\<open>a.txt\<close>, a blank line, the text, a blank line, the header
  of \<^verbatim>\<open>missing.txt\<close>, the not-found marker line and a blank line.
\<close>

theorem example_report:
  "report example_config example_os =
     Some ''=== Stripe Migration Report ===\<newline>\<newline>\<newline>--- a.txt ---\<newline>\<newline>hello\<newline>\<newline>--- missing.txt ---\<newline>[FILE NOT FOUND]\<newline>\<newline>''"
  by (simp add: report_def collect_def example_os_def example_config_def output_file_def
                posix_join_def open_for_writing_def close_written_def title_def step_defs
                path_exists_def read_text_def)

text \<open>
  C1. Whenever the report can be opened, it is the title followed by the sections of the
  listed paths, one section per entry and in the order of the list, whatever lies at the
  joined paths: the \<open>i\<close>-th section is the text the loop body writes for the \<open>i\<close>-th
  entry, and it begins with the header line that names that entry.
\<close>

theorem sections_follow_list:
  assumes "status (collect cfg os) = Inr ()"
  shows "report cfg os = Some (title @ concat (sections cfg os))
       \<and> length (sections cfg os) = length (files_to_collect cfg)
       \<and> (\<forall>i < length (files_to_collect cfg).
            sections cfg os ! i
              = section_text (opened os cfg) (project_root cfg) (files_to_collect cfg ! i)
          \<and> prefix (''\<newline>--- '' @ files_to_collect cfg ! i @ '' ---\<newline>'') (sections cfg os ! i))"
proof -
  from assms have w: "write_error os (output_file os cfg) = None"
    by (simp add: status_collect split: option.splits)
  have "prefix (''\<newline>--- '' @ p @ '' ---\<newline>'') (section_text os' root p)" for os' root p
    by (simp add: section_text_obs)
  then show ?thesis
    using w by (simp add: report_opened sections_def)
qed

theorem sections_follow_list_witness:
  "status (collect source_config bare_os) = Inr ()
   \<and> report source_config bare_os = Some (title @ concat (sections source_config bare_os))
   \<and> length (sections source_config bare_os) = 11
   \<and> sections source_config bare_os ! 2 = ''\<newline>--- server.js ---\<newline>[FILE NOT FOUND]\<newline>\<newline>''"
proof -
  have s: "status (collect source_config bare_os) = Inr ()"
    by (simp add: status_collect bare_os_def)
  have l: "length (files_to_collect source_config) = 11"
    by (simp add: source_config_def)
  have n: "nodes (opened bare_os source_config)
             (path_join (opened bare_os source_config) (project_root source_config) ''server.js'')
           = None"
    by (simp add: opened_def bare_os_def output_file_def windows_join_def source_config_def)
  have f: "files_to_collect source_config ! 2 = ''server.js''"
    by (simp add: source_config_def)
  have "section_text (opened bare_os source_config) (project_root source_config) ''server.js''
          = ''\<newline>--- server.js ---\<newline>[FILE NOT FOUND]\<newline>\<newline>''"
    using n by (simp add: section_text_obs path_exists_def)
  with sections_follow_list [OF s] l f show ?thesis
    using s by auto
qed




text \<open>
  C4. When nothing lies at the joined path, the loop body writes the header line, the
  line \<^verbatim>\<open>[FILE NOT FOUND]\<close> and an empty line, and opens nothing for reading; had the
  path existed and been unreadable, the text written would have been the error line
  instead, which is a different text.
\<close>

theorem missing_section:
  assumes "nodes os (path_join os root p) = None"
  shows "outfile (collect_one os root p st)
           = outfile st @ ''\<newline>--- '' @ p @ '' ---\<newline>'' @ ''[FILE NOT FOUND]\<newline>\<newline>''
       \<and> reads (collect_one os root p st) = reads st
       \<and> (\<forall>partial e.
             outfile (collect_one (os\<lparr> nodes := (nodes os)(path_join os root p \<mapsto> Unreadable partial e) \<rparr>)
                        root p st)
               = outfile st @ ''\<newline>--- '' @ p @ '' ---\<newline>\<newline>''
                   @ ''[ERROR READING FILE]: '' @ e @ ''\<newline>\<newline>''
           \<and> ''[ERROR READING FILE]: '' @ e @ ''\<newline>\<newline>'' \<noteq> ''[FILE NOT FOUND]\<newline>\<newline>''
           \<and> outfile (collect_one (os\<lparr> nodes := (nodes os)(path_join os root p \<mapsto> Unreadable partial e) \<rparr>)
                        root p st)
               \<noteq> outfile (collect_one os root p st))"
  using assms
  by (simp add: collect_one_outfile collect_one_reads section_text_obs path_exists_def read_text_def)

theorem missing_section_witness:
  "nodes example_os (path_join example_os ''/proj'' ''missing.txt'') = None
   \<and> outfile (collect_one example_os ''/proj'' ''missing.txt'' start_state)
       = ''\<newline>--- missing.txt ---\<newline>[FILE NOT FOUND]\<newline>\<newline>''
   \<and> reads (collect_one example_os ''/proj'' ''missing.txt'' start_state) = []"
proof -
  have n: "nodes example_os (path_join example_os ''/proj'' ''missing.txt'') = None"
    by (simp add: example_os_def posix_join_def)
  from missing_section [OF n, of start_state] n show ?thesis
    by (simp add: start_state_def)
qed

text \<open>
  C5, as stated, fails: the description after \<^verbatim>\<open>[ERROR READING FILE]:\<close> is \<^verbatim>\<open>str(e)\<close>
  and nothing else, and is empty when the exception's description is, as for the
  \<^verbatim>\<open>MemoryError\<close> of a file too large to read.
\<close>

theorem empty_description:
  "nodes faulty_os (path_join faulty_os ''/proj'' ''huge.log'') = Some (Unreadable [] [])
   \<and> read_text faulty_os (path_join faulty_os ''/proj'' ''huge.log'') = Inl []
   \<and> outfile (collect_one faulty_os ''/proj'' ''huge.log'' start_state)
       = ''\<newline>--- huge.log ---\<newline>\<newline>[ERROR READING FILE]: \<newline>\<newline>''
   \<and> drop (length ''\<newline>--- huge.log ---\<newline>\<newline>[ERROR READING FILE]: '')
         (outfile (collect_one faulty_os ''/proj'' ''huge.log'' start_state))
       = ''\<newline>\<newline>''"
  by (simp add: faulty_os_def posix_join_def read_text_def path_exists_def step_defs)

text \<open>
  C5, amended. When the read of an existing path raises, the loop body writes the header
  line, an empty line, \<^verbatim>\<open>[ERROR READING FILE]: \<close> followed by the exception's description
  (which may be empty) and a newline, then a newline; the exception is caught: the loop
  goes on to write the section and print the progress line of every later path, and
  whether the script ends normally depends on the opening of the report alone.
\<close>

theorem failed_read_section:
  assumes "nodes os (path_join os root p) = Some (Unreadable partial e)"
  shows "outfile (collect_loop os root (p # rest) st)
           = outfile st
             @ ''\<newline>--- '' @ p @ '' ---\<newline>\<newline>'' @ ''[ERROR READING FILE]: '' @ e @ ''\<newline>'' @ ''\<newline>''
             @ concat (map (section_text os root) rest)
       \<and> console (collect_loop os root (p # rest) st)
           = console st @ added_notice p
               # map (\<lambda>q. if path_exists os (path_join os root q)
                           then added_notice q else skipped_notice q) rest
       \<and> status (collect \<lparr> project_root = root, files_to_collect = p # rest \<rparr> os)
           = (case write_error os (path_join os root ''stripe_migration_report.txt'') of
                Some err \<Rightarrow> Inl (OSError err) | None \<Rightarrow> Inr ())"
  using assms
  by (simp add: collect_loop_outfile collect_loop_console collect_one_outfile collect_one_console
        section_text_obs path_exists_def read_text_def status_collect output_file_def)

theorem failed_read_section_witness:
  "nodes faulty_os (path_join faulty_os ''/proj'' ''dir'')
     = Some (Unreadable [] ''[Errno 21] Is a directory'')
   \<and> outfile (collect_loop faulty_os ''/proj'' [''dir'', ''a.txt''] start_state)
       = ''\<newline>--- dir ---\<newline>\<newline>[ERROR READING FILE]: [Errno 21] Is a directory\<newline>\<newline>\<newline>--- a.txt ---\<newline>\<newline>hello\<newline>''"
proof -
  have n: "nodes faulty_os (path_join faulty_os ''/proj'' ''dir'')
             = Some (Unreadable [] ''[Errno 21] Is a directory'')"
    by (simp add: faulty_os_def posix_join_def)
  have a: "section_text faulty_os ''/proj'' ''a.txt'' = ''\<newline>--- a.txt ---\<newline>\<newline>hello\<newline>''"
    by (simp add: section_text_obs faulty_os_def posix_join_def path_exists_def read_text_def)
  from failed_read_section [OF n, of "[''a.txt'']" start_state] n a show ?thesis
    by (simp add: start_state_def)
qed

subsection \<open>Runs whose output fails\<close>















lemma notices_differ: "added_notice p \<noteq> skipped_notice q"
  by (simp add: added_notice_def skipped_notice_def)

text \<open>
  C7. The progress line of a path is the success notice when something lies at the
  joined path, readable or not, and the not-found notice when nothing does; the two
  notices differ. The console of a whole run is the start banner, these lines in list
  order, and the two closing lines.
\<close>

theorem console_follows_existence:
  "console (collect_one os root p st)
     = console st @ [if path_exists os (path_join os root p)
                     then added_notice p else skipped_notice p]
   \<and> (\<forall>n. nodes os (path_join os root p) = Some n \<longrightarrow>
          console (collect_one os root p st) = console st @ [added_notice p])
   \<and> (nodes os (path_join os root p) = None \<longrightarrow>
          console (collect_one os root p st) = console st @ [skipped_notice p])
   \<and> added_notice p \<noteq> skipped_notice p
   \<and> (write_error os (output_file os cfg) = None \<longrightarrow>
        console (run (collect cfg os))
          = start_banner
            # map (\<lambda>p. if path_exists (opened os cfg) (path_join os (project_root cfg) p)
                        then added_notice p else skipped_notice p) (files_to_collect cfg)
            @ [complete_banner, ''   All contents saved to: '' @ output_file os cfg])"
proof -
  have "path_join (opened os cfg) = path_join os"
    by (simp add: opened_def)
  then show ?thesis
    by (simp add: collect_one_console path_exists_def notices_differ collect_opened Let_def
                  collect_loop_console)
qed

theorem console_follows_existence_witness:
  "console (collect_one faulty_os ''/proj'' ''a.txt'' start_state) = [added_notice ''a.txt'']
   \<and> console (collect_one faulty_os ''/proj'' ''dir'' start_state) = [added_notice ''dir'']
   \<and> console (collect_one faulty_os ''/proj'' ''nope'' start_state) = [skipped_notice ''nope'']
   \<and> console (run (collect faulty_config faulty_os))
       = [start_banner, added_notice ''dir'', skipped_notice ''nope'', complete_banner,
          ''   All contents saved to: /proj/stripe_migration_report.txt'']"
proof -
  have a: "nodes faulty_os (path_join faulty_os ''/proj'' ''a.txt'') = Some (Readable ''hello'')"
    by (simp add: faulty_os_def posix_join_def)
  have d: "nodes faulty_os (path_join faulty_os ''/proj'' ''dir'')
             = Some (Unreadable [] ''[Errno 21] Is a directory'')"
    by (simp add: faulty_os_def posix_join_def)
  have n: "nodes faulty_os (path_join faulty_os ''/proj'' ''nope'') = None"
    by (simp add: faulty_os_def posix_join_def)
  have w: "write_error faulty_os (output_file faulty_os faulty_config) = None"
    by (simp add: faulty_os_def)
  have o: "output_file faulty_os faulty_config = ''/proj/stripe_migration_report.txt''"
    by (simp add: output_file_def faulty_os_def faulty_config_def posix_join_def)
  have e1: "path_exists (opened faulty_os faulty_config) (path_join faulty_os ''/proj'' ''dir'')"
    using d by (simp add: path_exists_def opened_def)
  have e2: "\<not> path_exists (opened faulty_os faulty_config) (path_join faulty_os ''/proj'' ''nope'')"
    by (simp add: path_exists_def opened_def o) (simp add: faulty_os_def posix_join_def)
  have f: "files_to_collect faulty_config = [''dir'', ''nope'']" "project_root faulty_config = ''/proj''"
    by (simp_all add: faulty_config_def)
  note t = console_follows_existence [of faulty_os "''/proj''" _ start_state faulty_config]
  have "console (collect_one faulty_os ''/proj'' ''a.txt'' start_state)
          = console start_state @ [added_notice ''a.txt'']"
    using t [of "''a.txt''"] a by blast
  then have 1: "console (collect_one faulty_os ''/proj'' ''a.txt'' start_state) = [added_notice ''a.txt'']"
    by (simp add: start_state_def)
  have "console (collect_one faulty_os ''/proj'' ''dir'' start_state)
          = console start_state @ [added_notice ''dir'']"
    using t [of "''dir''"] d by blast
  then have 2: "console (collect_one faulty_os ''/proj'' ''dir'' start_state) = [added_notice ''dir'']"
    by (simp add: start_state_def)
  have "console (collect_one faulty_os ''/proj'' ''nope'' start_state)
          = console start_state @ [skipped_notice ''nope'']"
    using t [of "''nope''"] n by blast
  then have 3: "console (collect_one faulty_os ''/proj'' ''nope'' start_state) = [skipped_notice ''nope'']"
    by (simp add: start_state_def)
  have 4: "console (run (collect faulty_config faulty_os))
          = start_banner
            # map (\<lambda>p. if path_exists (opened faulty_os faulty_config)
                             (path_join faulty_os (project_root faulty_config) p)
                        then added_notice p else skipped_notice p) (files_to_collect faulty_config)
            @ [complete_banner, ''   All contents saved to: '' @ output_file faulty_os faulty_config]"
    using t [of "''nope''"] w by blast
  show ?thesis
    using e1 e2 by (simp add: 1 2 3 4 f o)
qed

lemma opened_overwrites:
  "opened (os\<lparr> nodes := (nodes os)(output_file os cfg := n) \<rparr>) cfg = opened os cfg"
  by (simp add: opened_def output_file_def)

lemma collect_ignores_old_report:
  assumes "write_error os (output_file os cfg) = None"
  shows "status (collect cfg (os\<lparr> nodes := (nodes os)(output_file os cfg := n) \<rparr>)) = Inr ()"
    and "run (collect cfg (os\<lparr> nodes := (nodes os)(output_file os cfg := n) \<rparr>)) = run (collect cfg os)"
    and "os_after (collect cfg (os\<lparr> nodes := (nodes os)(output_file os cfg := n) \<rparr>))
           = os_after (collect cfg os)"
proof -
  let ?os' = "os\<lparr> nodes := (nodes os)(output_file os cfg := n) \<rparr>"
  have o: "output_file ?os' cfg = output_file os cfg"
    by (simp add: output_file_def)
  have w: "write_error ?os' (output_file ?os' cfg) = None"
    using assms by (simp add: o)
  have d: "opened ?os' cfg = opened os cfg"
    by (rule opened_overwrites)
  show "status (collect cfg ?os') = Inr ()"
    using w by (simp add: status_collect)
  show "run (collect cfg ?os') = run (collect cfg os)"
    by (simp only: collect_opened [OF w] collect_opened [OF assms] d o Let_def result.simps)
  show "os_after (collect cfg ?os') = os_after (collect cfg os)"
    by (simp only: collect_opened [OF w] collect_opened [OF assms] d o Let_def result.simps)
qed

lemma os_after_collect:
  assumes "write_error os (output_file os cfg) = None"
  shows "os_after (collect cfg os)
           = os\<lparr> nodes := (nodes os)(output_file os cfg
                       \<mapsto> Readable (title @ concat (sections cfg os))) \<rparr>"
  using assms
  by (simp add: collect_opened Let_def close_written_def opened_def collect_loop_outfile
                sections_def)

text \<open>
  C8. A second run on the file system the first run left behind gives the same result
  as the first, the report holding the same text once rather than twice; and the report
  does not depend on what lay at the report's path before the run.
\<close>

theorem rerun_overwrites:
  assumes "status (collect cfg os) = Inr ()"
  shows "collect cfg (os_after (collect cfg os)) = collect cfg os
       \<and> report cfg (os_after (collect cfg os)) = report cfg os
       \<and> (\<exists>text. report cfg os = Some text
              \<and> nodes (os_after (collect cfg (os_after (collect cfg os)))) (output_file os cfg)
                  = Some (Readable text))
       \<and> (\<forall>n. report cfg (os\<lparr> nodes := (nodes os)(output_file os cfg := n) \<rparr>) = report cfg os)"
proof -
  from assms have w: "write_error os (output_file os cfg) = None"
    by (simp add: status_collect split: option.splits)
  let ?t = "title @ concat (sections cfg os)"
  let ?os1 = "os\<lparr> nodes := (nodes os)(output_file os cfg := Some (Readable ?t)) \<rparr>"
  have a: "os_after (collect cfg os) = ?os1"
    using w by (simp add: os_after_collect)
  have same: "collect cfg (os\<lparr> nodes := (nodes os)(output_file os cfg := n) \<rparr>) = collect cfg os" for n
    using collect_ignores_old_report [OF w, of n] assms
    by (intro result.equality) simp_all
  have o: "output_file (os\<lparr> nodes := (nodes os)(output_file os cfg := n) \<rparr>) cfg = output_file os cfg" for n
    by (simp add: output_file_def)
  have r: "report cfg (os\<lparr> nodes := (nodes os)(output_file os cfg := n) \<rparr>) = report cfg os" for n
    by (simp only: report_def same o)
  have 1: "collect cfg (os_after (collect cfg os)) = collect cfg os"
    by (simp only: a same)
  have 2: "report cfg (os_after (collect cfg os)) = report cfg os"
    by (simp only: a r)
  have 3: "report cfg os = Some ?t"
    using w by (rule report_opened)
  have 4: "nodes (os_after (collect cfg (os_after (collect cfg os)))) (output_file os cfg)
             = Some (Readable ?t)"
    by (simp only: 1) (simp add: a)
  from 1 2 3 4 r show ?thesis by blast
qed

theorem rerun_overwrites_witness:
  "status (collect example_config example_os) = Inr ()
   \<and> collect example_config (os_after (collect example_config example_os))
       = collect example_config example_os
   \<and> report example_config
        (example_os\<lparr> nodes := (nodes example_os)
            (output_file example_os example_config := Some (Readable ''old report'')) \<rparr>)
       = report example_config example_os"
proof -
  have s: "status (collect example_config example_os) = Inr ()"
    by (simp add: status_collect example_os_def)
  from rerun_overwrites [OF s] s show ?thesis by blast
qed

text \<open>
  C9. When the read of an existing path raises, the text written for the path is the
  header, the error line and a newline, with nothing of the text decoded before the
  failure: the loop body leaves the same state as for a file of which nothing had been
  decoded.
\<close>

theorem failed_read_leaves_no_content:
  assumes "nodes os (path_join os root p) = Some (Unreadable partial e)"
  shows "outfile (collect_one os root p st)
           = outfile st @ ''\<newline>--- '' @ p @ '' ---\<newline>\<newline>''
               @ ''[ERROR READING FILE]: '' @ e @ ''\<newline>'' @ ''\<newline>''
       \<and> collect_one os root p st
           = collect_one (os\<lparr> nodes := (nodes os)(path_join os root p \<mapsto> Unreadable [] e) \<rparr>)
               root p st"
  using assms
  by (simp add: step_defs path_exists_def read_text_def)

theorem failed_read_leaves_no_content_witness:
  "nodes faulty_os (path_join faulty_os ''/proj'' ''bad.bin'')
     = Some (Unreadable ''abc'' ''invalid start byte'')
   \<and> outfile (collect_one faulty_os ''/proj'' ''bad.bin'' start_state)
       = ''\<newline>--- bad.bin ---\<newline>\<newline>[ERROR READING FILE]: invalid start byte\<newline>\<newline>''"
proof -
  have n: "nodes faulty_os (path_join faulty_os ''/proj'' ''bad.bin'')
             = Some (Unreadable ''abc'' ''invalid start byte'')"
    by (simp add: faulty_os_def posix_join_def)
  from failed_read_leaves_no_content [OF n, of start_state, THEN conjunct1] n show ?thesis
    by (simp add: start_state_def)
qed

lemma path_exists_opened:
  "path_exists (opened os cfg) q = (q = output_file os cfg \<or> path_exists os q)"
  by (simp add: path_exists_def opened_def)

lemma read_text_opened:
  "read_text (opened os cfg) q = (if q = output_file os cfg then Inr [] else read_text os q)"
  by (simp add: read_text_def opened_def)

lemma path_join_opened [simp]: "path_join (opened os cfg) = path_join os"
  by (simp add: opened_def)

text \<open>
  C10. Two file systems on the same platform, on both of which the report can be
  opened, and which agree for every listed path other than the report itself on whether
  the joined path exists and, when it does, on the outcome of reading it, give the same
  report. Unlisted files and the old contents of the report have no part in it.
\<close>

theorem report_depends_on_observations_only:
  assumes "path_join os1 = path_join os2"
    and "write_error os1 (output_file os1 cfg) = None"
    and "write_error os2 (output_file os2 cfg) = None"
    and "\<forall>p \<in> set (files_to_collect cfg).
           path_join os1 (project_root cfg) p \<noteq> output_file os1 cfg \<longrightarrow>
             path_exists os1 (path_join os1 (project_root cfg) p)
               = path_exists os2 (path_join os2 (project_root cfg) p)
           \<and> (path_exists os1 (path_join os1 (project_root cfg) p) \<longrightarrow>
                read_text os1 (path_join os1 (project_root cfg) p)
                  = read_text os2 (path_join os2 (project_root cfg) p))"
  shows "report cfg os1 = report cfg os2 \<and> report cfg os1 \<noteq> None"
proof -
  have o: "output_file os1 cfg = output_file os2 cfg"
    using assms(1) by (simp add: output_file_def)
  have "section_text (opened os1 cfg) (project_root cfg) p
          = section_text (opened os2 cfg) (project_root cfg) p"
    if "p \<in> set (files_to_collect cfg)" for p
  proof (cases "path_join os1 (project_root cfg) p = output_file os1 cfg")
    case True
    then show ?thesis
      using assms(1) o
      by (simp add: section_text_obs path_exists_opened read_text_opened)
  next
    case False
    with assms(4) that
    have "path_exists os1 (path_join os1 (project_root cfg) p)
            = path_exists os2 (path_join os2 (project_root cfg) p)"
      and "path_exists os1 (path_join os1 (project_root cfg) p) \<Longrightarrow>
             read_text os1 (path_join os1 (project_root cfg) p)
               = read_text os2 (path_join os2 (project_root cfg) p)"
      by blast+
    with False show ?thesis
      using assms(1) o
      by (simp add: section_text_obs path_exists_opened read_text_opened)
  qed
  then have "sections cfg os1 = sections cfg os2"
    by (simp add: sections_def)
  then show ?thesis
    using assms(2,3) by (simp add: report_opened)
qed

theorem report_depends_on_observations_only_witness:
  "report example_config example_os = report example_config crowded_os
   \<and> report example_config crowded_os
       = Some ''=== Stripe Migration Report ===\<newline>\<newline>\<newline>--- a.txt ---\<newline>\<newline>hello\<newline>\<newline>--- missing.txt ---\<newline>[FILE NOT FOUND]\<newline>\<newline>''"
proof -
  have j: "path_join example_os = path_join crowded_os"
    by (simp add: example_os_def crowded_os_def)
  have w1: "write_error example_os (output_file example_os example_config) = None"
    by (simp add: example_os_def)
  have w2: "write_error crowded_os (output_file crowded_os example_config) = None"
    by (simp add: crowded_os_def)
  have obs: "\<forall>p \<in> set (files_to_collect example_config).
           path_join example_os (project_root example_config) p
             \<noteq> output_file example_os example_config \<longrightarrow>
             path_exists example_os (path_join example_os (project_root example_config) p)
               = path_exists crowded_os (path_join crowded_os (project_root example_config) p)
           \<and> (path_exists example_os (path_join example_os (project_root example_config) p) \<longrightarrow>
                read_text example_os (path_join example_os (project_root example_config) p)
                  = read_text crowded_os (path_join crowded_os (project_root example_config) p))"
    by (simp add: example_config_def example_os_def crowded_os_def posix_join_def
                  path_exists_def read_text_def output_file_def)
  have r: "report example_config example_os
       = Some ''=== Stripe Migration Report ===\<newline>\<newline>\<newline>--- a.txt ---\<newline>\<newline>hello\<newline>\<newline>--- missing.txt ---\<newline>[FILE NOT FOUND]\<newline>\<newline>''"
    by (simp add: report_def collect_def example_os_def example_config_def output_file_def
                posix_join_def open_for_writing_def close_written_def title_def step_defs
                path_exists_def read_text_def)
  from report_depends_on_observations_only [OF j w1 w2 obs] r show ?thesis
    by simp
qed

end
